theory Spec2Isabelle
  imports Complex_Main
begin

section \<open>Data model\<close>

text \<open>
  The rows of the Prisma schema that the purchase handler reads or writes. A column the
  handler never touches (timestamps, images, the legacy \<open>isUsed\<close> flag, the ticket's own
  id) is left out. \<open>Float\<close> columns and JSON numbers are exact rationals: the rounding of
  IEEE doubles is not part of the model. \<open>DateTime\<close> values are milliseconds. An
  \<open>Int\<close> column holds a 32-bit signed integer: a statement that would store a value
  outside it is rejected by the database.
\<close>

definition int32 :: "int \<Rightarrow> bool" where
  "int32 n = (- 2147483648 \<le> n \<and> n \<le> 2147483647)"

record User =
  us_id :: string
  us_email :: string
  us_name :: "string option"

record Event =
  ev_id :: string
  ev_title :: string
  ev_location :: string
  ev_startDate :: int
  ev_endDate :: int
  ev_totalTickets :: int
  ev_soldTickets :: int

record TicketType =
  tt_id :: string
  tt_name :: string
  tt_price :: rat
  tt_quantity :: int
  tt_soldCount :: int
  tt_eventId :: string

datatype OrderStatus = PENDING | COMPLETED | CANCELLED | REFUNDED

record Order =
  ord_id :: string
  ord_total :: rat
  ord_status :: OrderStatus
  ord_paymentMethod :: "string option"
  ord_userId :: string
  ord_eventId :: string

record Ticket =
  tk_qrCode :: string
  tk_type :: string
  tk_price :: rat
  tk_eventId :: string
  tk_userId :: string
  tk_orderId :: string
  tk_ticketTypeId :: "string option"

text \<open>
  The tables are lists in storage order: \<open>event.ticketTypes[0]\<close> and \<open>find\<close> depend on
  it. \<open>tick\<close> counts the calls made so far to the outside world (\<open>cuid()\<close>,
  \<open>Date.now()\<close>, \<open>sendTicketEmail\<close>), so that each call may answer differently.
\<close>

record world =
  users :: "User list"
  events :: "Event list"
  ticketTypes :: "TicketType list"
  orders :: "Order list"
  tickets :: "Ticket list"
  tick :: nat

text \<open>The object handed to \<open>generateQRCode\<close>.\<close>

record qr_data =
  qr_eventId :: string
  qr_userId :: string
  qr_orderId :: string
  qr_ticketNumber :: nat
  qr_timestamp :: int

record session_user =
  su_id :: string
  su_name :: "string option"
  su_email :: string

text \<open>
  The collaborators whose code is outside the handler are parameters:
  \<open>cuid\<close> is the identifier Prisma draws for \<open>@default(cuid())\<close>,
  \<open>dateNow\<close> the clock, \<open>generateQRCode\<close> the encoder (\<open>None\<close> when it
  rejects), \<open>sendTicketEmail\<close> whether the delivery resolves (\<open>False\<close> when it
  rejects), given the session user, the tickets and the order's event, from which the
  handler builds the message.
\<close>

record env =
  cuid :: "nat \<Rightarrow> string"
  dateNow :: "nat \<Rightarrow> int"
  generateQRCode :: "qr_data \<Rightarrow> string option"
  sendTicketEmail :: "nat \<Rightarrow> session_user \<Rightarrow> Ticket list \<Rightarrow> Event \<Rightarrow> bool"

text \<open>
  A line item of the cart. A field is \<open>None\<close> when the JSON object does not carry it;
  the items are taken as well typed (strings, an integer quantity, a number price).
\<close>

record item =
  it_eventId :: "string option"
  it_quantity :: "int option"
  it_ticketTypeId :: "string option"
  it_ticketType :: "string option"
  it_price :: "rat option"

datatype json = JNull | JBool bool | JNum rat | JStr string
  | JArr "json list" | JObj "(string \<times> json) list"

text \<open>The request body; \<open>items\<close> is \<open>None\<close> when the field is not an array.\<close>

record body =
  items :: "item list option"
  userInfo :: json
  paymentMethod :: json
  total :: json

text \<open>
  What \<open>prisma.order.create\<close> returns: the row, and a relation only where
  \<open>include\<close> asks for it.
\<close>

record order_payload =
  op_order :: Order
  op_event :: "Event option"
  op_tickets :: "Ticket list option"

datatype payload = ErrorBody string | OrdersBody "order_payload list"

datatype response = Response payload nat

section \<open>Storage operations\<close>

definition event_findUnique :: "string \<Rightarrow> world \<Rightarrow> (Event \<times> TicketType list) option" where
  \<comment> \<open>\<open>prisma.event.findUnique({where: {id}, include: {ticketTypes: true}})\<close>\<close>
  "event_findUnique eid w =
     (case find (\<lambda>e. ev_id e = eid) (events w) of
        None \<Rightarrow> None
      | Some e \<Rightarrow> Some (e, filter (\<lambda>t. tt_eventId t = eid) (ticketTypes w)))"

definition order_create :: "env \<Rightarrow> rat \<Rightarrow> string \<Rightarrow> string \<Rightarrow> world \<Rightarrow> order_payload option \<times> world" where
  \<comment> \<open>\<open>prisma.order.create({data: {total, userId, eventId}, include: {event: true}})\<close>:
      the id is drawn by \<open>cuid()\<close>, the primary key rejects one that is taken, the
      foreign keys of the relations \<open>user\<close> and \<open>event\<close> reject a \<open>userId\<close> or an
      \<open>eventId\<close> that no row has, the status takes its default.\<close>
  "order_create en tot uid eid w =
     (let oid = cuid en (tick w); w1 = w\<lparr>tick := tick w + 1\<rparr> in
      if oid \<in> set (map ord_id (orders w)) then (None, w1)
      else if uid \<notin> set (map us_id (users w)) then (None, w1)
      else if eid \<notin> set (map ev_id (events w)) then (None, w1)
      else
        (let ord = \<lparr>ord_id = oid, ord_total = tot, ord_status = PENDING,
                    ord_paymentMethod = None, ord_userId = uid, ord_eventId = eid\<rparr>
         in (Some \<lparr>op_order = ord, op_event = find (\<lambda>e. ev_id e = eid) (events w),
                    op_tickets = None\<rparr>,
             w1\<lparr>orders := orders w @ [ord]\<rparr>)))"

definition ticket_createMany :: "Ticket list \<Rightarrow> world \<Rightarrow> world" where
  \<comment> \<open>\<open>prisma.ticket.createMany({data})\<close>. The rows the handler passes name the user
      and the event of the order it has just stored, that order, and a ticket type read
      from its table, and no request deletes a row: their foreign keys hold.\<close>
  "ticket_createMany ts w = w\<lparr>tickets := tickets w @ ts\<rparr>"

definition ticketType_update :: "string \<Rightarrow> int \<Rightarrow> world \<Rightarrow> world option" where
  \<comment> \<open>\<open>prisma.ticketType.update({where: {id}, data: {soldCount: {increment}}})\<close>;
      it rejects when no row has the id, and when the increment or the new
      \<open>soldCount\<close> is not a 32-bit integer.\<close>
  "ticketType_update tid n w =
     (if tid \<in> set (map tt_id (ticketTypes w)) \<and> int32 n \<and>
         list_all (\<lambda>t. int32 (tt_soldCount t + n))
           (filter (\<lambda>t. tt_id t = tid) (ticketTypes w))
      then Some (w\<lparr>ticketTypes :=
        map (\<lambda>t. if tt_id t = tid then t\<lparr>tt_soldCount := tt_soldCount t + n\<rparr> else t)
          (ticketTypes w)\<rparr>)
      else None)"

definition event_update :: "string \<Rightarrow> int \<Rightarrow> world \<Rightarrow> world option" where
  \<comment> \<open>\<open>prisma.event.update({where: {id}, data: {soldTickets: {increment}}})\<close>;
      it rejects when no row has the id, and when the increment or the new
      \<open>soldTickets\<close> is not a 32-bit integer.\<close>
  "event_update eid n w =
     (if eid \<in> set (map ev_id (events w)) \<and> int32 n \<and>
         list_all (\<lambda>e. int32 (ev_soldTickets e + n))
           (filter (\<lambda>e. ev_id e = eid) (events w))
      then Some (w\<lparr>events :=
        map (\<lambda>e. if ev_id e = eid then e\<lparr>ev_soldTickets := ev_soldTickets e + n\<rparr> else e)
          (events w)\<rparr>)
      else None)"

section \<open>The purchase handler\<close>

definition failed :: response where
  \<comment> \<open>the \<open>catch\<close> block: every exception thrown inside \<open>try\<close> ends here\<close>
  "failed = Response (ErrorBody ''Failed to create order'') 500"

definition truthy :: "string option \<Rightarrow> bool" where
  \<comment> \<open>JavaScript truthiness of an optional string: absent and \<open>\"\"\<close> are falsy\<close>
  "truthy v = (case v of None \<Rightarrow> False | Some s \<Rightarrow> s \<noteq> [])"

definition resolveTicketType :: "item \<Rightarrow> TicketType list \<Rightarrow> response + TicketType" where
  \<comment> \<open>lines 108 to 132\<close>
  "resolveTicketType it tts =
     (if truthy (it_ticketTypeId it) then
        (case find (\<lambda>t. Some (tt_id t) = it_ticketTypeId it) tts of
           None \<Rightarrow> Inl (Response (ErrorBody ''Ticket type not found'') 404)
         | Some t \<Rightarrow> Inr t)
      else
        (case (if truthy (it_ticketType it)
               then find (\<lambda>t. Some (tt_name t) = it_ticketType it) tts
               else (case tts of [] \<Rightarrow> None | t # _ \<Rightarrow> Some t)) of
           None \<Rightarrow> Inl (Response (ErrorBody ''No ticket types available for this event'') 400)
         | Some t \<Rightarrow> Inr t))"

definition quantityOf :: "item \<Rightarrow> int" where
  \<comment> \<open>the destructuring default \<open>quantity = 1\<close>\<close>
  "quantityOf it = (case it_quantity it of None \<Rightarrow> 1 | Some q \<Rightarrow> q)"

definition orderTotal :: "item \<Rightarrow> TicketType \<Rightarrow> rat" where
  \<comment> \<open>\<open>price ? price * quantity : ticketTypeObj.price * quantity\<close>: a number is truthy
      unless it is zero\<close>
  "orderTotal it tt =
     (case it_price it of
        Some p \<Rightarrow> if p \<noteq> 0 then p * of_int (quantityOf it)
                  else tt_price tt * of_int (quantityOf it)
      | None \<Rightarrow> tt_price tt * of_int (quantityOf it))"

fun mintTickets ::
  "env \<Rightarrow> string \<Rightarrow> string \<Rightarrow> string \<Rightarrow> TicketType \<Rightarrow> nat list \<Rightarrow> world \<Rightarrow> Ticket list option \<times> world"
where
  \<comment> \<open>the loop of lines 159 to 177, over the values \<open>i\<close> takes\<close>
  "mintTickets en eid uid oid tt [] w = (Some [], w)"
| "mintTickets en eid uid oid tt (i # rest) w =
     (let w1 = w\<lparr>tick := tick w + 1\<rparr> in
      case generateQRCode en \<lparr>qr_eventId = eid, qr_userId = uid, qr_orderId = oid,
                               qr_ticketNumber = i + 1, qr_timestamp = dateNow en (tick w)\<rparr> of
        None \<Rightarrow> (None, w1)
      | Some qr \<Rightarrow>
          (case mintTickets en eid uid oid tt rest w1 of
             (None, w2) \<Rightarrow> (None, w2)
           | (Some ts, w2) \<Rightarrow>
               (Some (\<lparr>tk_qrCode = qr, tk_type = tt_name tt, tk_price = tt_price tt,
                       tk_eventId = eid, tk_userId = uid, tk_orderId = oid,
                       tk_ticketTypeId = Some (tt_id tt)\<rparr> # ts), w2)))"

text \<open>
  What one line item leaves for the two ledger updates: the order to report, and the
  ticket type, event and quantity to increment by.
\<close>

record issued =
  is_order :: order_payload
  is_ticketTypeId :: string
  is_eventId :: string
  is_quantity :: int

definition issueItem :: "env \<Rightarrow> session_user \<Rightarrow> item \<Rightarrow> world \<Rightarrow> (response + issued) \<times> world" where
  \<comment> \<open>lines 88 to 213 of the loop body: validation, the availability check, the order,
      the tickets and their delivery\<close>
  "issueItem en u it w =
     (case it_eventId it of
        None \<Rightarrow> (Inl (Response (ErrorBody ''Missing eventId in item'') 400), w)
      | Some eid \<Rightarrow>
          if eid = [] then (Inl (Response (ErrorBody ''Missing eventId in item'') 400), w)
          else
            (let quantity = quantityOf it in
             case event_findUnique eid w of
               None \<Rightarrow> (Inl (Response (ErrorBody ''Event not found'') 404), w)
             | Some (event, tts) \<Rightarrow>
                 (case resolveTicketType it tts of
                    Inl r \<Rightarrow> (Inl r, w)
                  | Inr tt \<Rightarrow>
                      if tt_quantity tt - tt_soldCount tt < quantity then
                        (Inl (Response (ErrorBody ''Not enough tickets available'') 400), w)
                      else
                        (case order_create en (orderTotal it tt) (su_id u) eid w of
                           (None, w1) \<Rightarrow> (Inl failed, w1)
                         | (Some ord, w1) \<Rightarrow>
                             (case mintTickets en eid (su_id u) (ord_id (op_order ord)) tt
                                     [0..<nat quantity] w1 of
                                (None, w2) \<Rightarrow> (Inl failed, w2)
                              | (Some ticketsToCreate, w2) \<Rightarrow>
                                  (let w3 = ticket_createMany ticketsToCreate w2;
                                       w4 = w3\<lparr>tick := tick w3 + 1\<rparr> in
                                   case op_event ord of
                                     None \<Rightarrow> (Inl failed, w3)
                                   | Some oev \<Rightarrow>
                                       if sendTicketEmail en (tick w3) u ticketsToCreate oev
                                       then (Inr \<lparr>is_order = ord, is_ticketTypeId = tt_id tt,
                                                  is_eventId = eid, is_quantity = quantity\<rparr>, w4)
                                       else (Inl failed, w4)))))))"

definition processItem :: "env \<Rightarrow> session_user \<Rightarrow> item \<Rightarrow> world \<Rightarrow> (response + order_payload) \<times> world" where
  \<comment> \<open>the whole loop body, lines 88 to 233: \<open>Inl\<close> is the response the handler ends
      with, \<open>Inr\<close> the order pushed on \<open>createdOrders\<close>\<close>
  "processItem en u it w =
     (case issueItem en u it w of
        (Inl r, w1) \<Rightarrow> (Inl r, w1)
      | (Inr iss, w1) \<Rightarrow>
          (case ticketType_update (is_ticketTypeId iss) (is_quantity iss) w1 of
             None \<Rightarrow> (Inl failed, w1)
           | Some w2 \<Rightarrow>
               (case event_update (is_eventId iss) (is_quantity iss) w2 of
                  None \<Rightarrow> (Inl failed, w2)
                | Some w3 \<Rightarrow> (Inr (is_order iss), w3))))"

fun purchaseLoop ::
  "env \<Rightarrow> session_user \<Rightarrow> item list \<Rightarrow> order_payload list \<Rightarrow> world \<Rightarrow> response \<times> world"
where
  \<comment> \<open>\<open>for (const item of items)\<close> and the final response\<close>
  "purchaseLoop en u [] createdOrders w = (Response (OrdersBody createdOrders) 201, w)"
| "purchaseLoop en u (it # rest) createdOrders w =
     (case processItem en u it w of
        (Inl r, w1) \<Rightarrow> (r, w1)
      | (Inr ord, w1) \<Rightarrow> purchaseLoop en u rest (createdOrders @ [ord]) w1)"

definition POST :: "env \<Rightarrow> session_user option \<Rightarrow> body option \<Rightarrow> world \<Rightarrow> response \<times> world" where
  \<comment> \<open>the session is \<open>None\<close> when there is none; the body is \<open>None\<close> when
      \<open>request.json()\<close> rejects\<close>
  "POST en session b w =
     (case session of
        None \<Rightarrow> (Response (ErrorBody ''Unauthorized'') 401, w)
      | Some u \<Rightarrow>
          if su_id u = [] then (Response (ErrorBody ''Unauthorized'') 401, w)
          else
            (case b of
               None \<Rightarrow> (failed, w)
             | Some bd \<Rightarrow>
                 (case items bd of
                    None \<Rightarrow> (Response (ErrorBody ''No items in order'') 400, w)
                  | Some [] \<Rightarrow> (Response (ErrorBody ''No items in order'') 400, w)
                  | Some its \<Rightarrow> purchaseLoop en u its [] w)))"

section \<open>Runs of several requests\<close>

text \<open>Requests served one after the other, each to its end before the next begins.\<close>

fun runSequential ::
  "env \<Rightarrow> (session_user option \<times> body option) list \<Rightarrow> world \<Rightarrow> world"
where
  "runSequential en [] w = w"
| "runSequential en ((session, b) # rest) w = runSequential en rest (snd (POST en session b w))"

text \<open>
  Requests served at the same time. Every \<open>await\<close> of the handler hands control to the
  other requests, and every Prisma call is one statement of its own against the database
  (the handler opens no transaction). A request with a one-item cart is followed through
  three steps, each of them atomic: the loop body up to the delivery (lines 88 to 213),
  \<open>ticketType.update\<close> (line 215) and \<open>event.update\<close> (line 224). The first step is
  coarser than the code, which awaits inside it as well; every interleaving of these steps
  is therefore an interleaving of the code.
\<close>

datatype task =
  Pending session_user item
  | Issued issued
  | TypeUpdated issued
  | Finished response

definition stepTask :: "env \<Rightarrow> task \<Rightarrow> world \<Rightarrow> task \<times> world" where
  "stepTask en t w =
     (case t of
        Pending u it \<Rightarrow>
          (case issueItem en u it w of
             (Inl r, w1) \<Rightarrow> (Finished r, w1)
           | (Inr iss, w1) \<Rightarrow> (Issued iss, w1))
      | Issued iss \<Rightarrow>
          (case ticketType_update (is_ticketTypeId iss) (is_quantity iss) w of
             None \<Rightarrow> (Finished failed, w)
           | Some w2 \<Rightarrow> (TypeUpdated iss, w2))
      | TypeUpdated iss \<Rightarrow>
          (case event_update (is_eventId iss) (is_quantity iss) w of
             None \<Rightarrow> (Finished failed, w)
           | Some w3 \<Rightarrow> (Finished (Response (OrdersBody [is_order iss]) 201), w3))
      | Finished r \<Rightarrow> (Finished r, w))"

fun runSchedule :: "env \<Rightarrow> nat list \<Rightarrow> task list \<times> world \<Rightarrow> task list \<times> world" where
  \<comment> \<open>the schedule names, step by step, the request that moves\<close>
  "runSchedule en [] c = c"
| "runSchedule en (i # sched) (ts, w) =
     (if i < length ts
      then (case stepTask en (ts ! i) w of (t, w1) \<Rightarrow> runSchedule en sched (ts[i := t], w1))
      else runSchedule en sched (ts, w))"

section \<open>Properties of the tables\<close>

definition ledgerOk :: "world \<Rightarrow> bool" where
  \<comment> \<open>the invariant \<open>soldCount \<le> quantity\<close> of every ticket type\<close>
  "ledgerOk w = list_all (\<lambda>t. tt_soldCount t \<le> tt_quantity t) (ticketTypes w)"

definition lineTotalSpec :: "item \<Rightarrow> TicketType \<Rightarrow> rat" where
  \<comment> \<open>the line total in the specification's words,
      \<open>(unitPriceOverride ?? ticketType.price) * quantity\<close>, to compare with
      \<open>orderTotal\<close>\<close>
  "lineTotalSpec it tt =
     (case it_price it of None \<Rightarrow> tt_price tt | Some p \<Rightarrow> p) * of_int (quantityOf it)"


section \<open>Example data\<close>

definition buyer :: session_user where
  "buyer = \<lparr>su_id = ''U1'', su_name = Some ''Ama'', su_email = ''ama@example.org''\<rparr>"

definition ama :: User where
  \<comment> \<open>the buyer's row\<close>
  "ama = \<lparr>us_id = ''U1'', us_email = ''ama@example.org'', us_name = Some ''Ama''\<rparr>"

definition vip :: TicketType where
  "vip = \<lparr>tt_id = ''T1'', tt_name = ''VIP'', tt_price = 50, tt_quantity = 2,
          tt_soldCount = 0, tt_eventId = ''E1''\<rparr>"

definition gala :: Event where
  "gala = \<lparr>ev_id = ''E1'', ev_title = ''Gala'', ev_location = ''Accra'', ev_startDate = 1000,
           ev_endDate = 2000, ev_totalTickets = 2, ev_soldTickets = 0\<rparr>"

definition box_office :: world where
  \<comment> \<open>event E with the ticket type VIP, quantity 2, none sold\<close>
  "box_office = \<lparr>users = [ama], events = [gala], ticketTypes = [vip], orders = [],
     tickets = [], tick = 0\<rparr>"

definition sold_out :: world where
  \<comment> \<open>the same after one order of both tickets\<close>
  "sold_out = \<lparr>users = [ama], events = [gala\<lparr>ev_soldTickets := 2\<rparr>],
     ticketTypes = [vip\<lparr>tt_soldCount := 2\<rparr>],
     orders = [\<lparr>ord_id = ''o'', ord_total = 100, ord_status = PENDING,
                ord_paymentMethod = None, ord_userId = ''U1'', ord_eventId = ''E1''\<rparr>],
     tickets = [\<lparr>tk_qrCode = ''o/I'', tk_type = ''VIP'', tk_price = 50, tk_eventId = ''E1'',
                 tk_userId = ''U1'', tk_orderId = ''o'', tk_ticketTypeId = Some ''T1''\<rparr>,
                \<lparr>tk_qrCode = ''o/II'', tk_type = ''VIP'', tk_price = 50, tk_eventId = ''E1'',
                 tk_userId = ''U1'', tk_orderId = ''o'', tk_ticketTypeId = Some ''T1''\<rparr>],
     tick = 4\<rparr>"

definition last_seat :: world where
  \<comment> \<open>the same event with a single VIP ticket\<close>
  "last_seat = box_office\<lparr>ticketTypes := [vip\<lparr>tt_quantity := 1\<rparr>]\<rparr>"

definition services :: env where
  \<comment> \<open>collaborators that all answer\<close>
  "services = \<lparr>cuid = (\<lambda>n. CHR ''o'' # replicate n CHR ''+''),
     dateNow = (\<lambda>n. 1700000000000 + int n),
     generateQRCode = (\<lambda>d. Some (qr_orderId d @ CHR ''/'' # replicate (qr_ticketNumber d) CHR ''I'')),
     sendTicketEmail = (\<lambda>n u ts e. True)\<rparr>"

definition mail_down :: "nat \<Rightarrow> env" where
  \<comment> \<open>the same, with a delivery that rejects from call \<open>k\<close> of the outside world on\<close>
  "mail_down k = services\<lparr>sendTicketEmail := (\<lambda>n u ts e. n < k)\<rparr>"

definition printer :: "qr_data \<Rightarrow> string option" where
  \<comment> \<open>an encoder that can be decoded: the five fields in order, separated by bars, the
      numbers in tally marks; it rejects a field that holds a bar and a negative time\<close>
  "printer d =
     (if CHR ''|'' \<in> set (qr_eventId d @ qr_userId d @ qr_orderId d) \<or> qr_timestamp d < 0
      then None
      else Some (qr_eventId d @ CHR ''|'' # qr_userId d @ CHR ''|'' # qr_orderId d @
                 CHR ''|'' # replicate (qr_ticketNumber d) CHR ''I'' @
                 CHR ''|'' # replicate (nat (qr_timestamp d)) CHR ''I''))"

definition registry :: env where
  \<comment> \<open>collaborators that all answer, with this encoder and a clock that starts at 0\<close>
  "registry = \<lparr>cuid = (\<lambda>n. CHR ''o'' # replicate n CHR ''+''), dateNow = int,
     generateQRCode = printer, sendTicketEmail = (\<lambda>n u ts e. True)\<rparr>"

definition lineItem :: "int \<Rightarrow> item" where
  \<comment> \<open>\<open>{eventId: \"E1\", quantity: q}\<close>\<close>
  "lineItem q = \<lparr>it_eventId = Some ''E1'', it_quantity = Some q, it_ticketTypeId = None,
                 it_ticketType = None, it_price = None\<rparr>"

definition cart :: "item list \<Rightarrow> body" where
  "cart its = \<lparr>items = Some its, userInfo = JNull, paymentMethod = JStr ''card'',
               total = JNum 0\<rparr>"

section \<open>Unfolding the handler\<close>

lemmas handler_defs = POST_def processItem_def issueItem_def event_findUnique_def
  resolveTicketType_def truthy_def quantityOf_def orderTotal_def order_create_def
  ticket_createMany_def ticketType_update_def event_update_def failed_def int32_def Let_def

lemmas example_defs = buyer_def ama_def vip_def gala_def box_office_def sold_out_def last_seat_def
  services_def mail_down_def printer_def registry_def lineItem_def cart_def

section \<open>Lists and lookups\<close>




lemma find_mem: "find P xs = Some x \<Longrightarrow> x \<in> set xs \<and> P x"
  by (induction xs) (auto split: if_splits)

lemma resolveTicketType_mem: "resolveTicketType it tts = Inr tt \<Longrightarrow> tt \<in> set tts"
  by (auto simp: resolveTicketType_def split: if_splits option.splits list.splits dest: find_mem)

lemma event_findUnique_Some:
  "event_findUnique eid w = Some (ev, tts) \<Longrightarrow>
   find (\<lambda>e. ev_id e = eid) (events w) = Some ev \<and>
   tts = filter (\<lambda>t. tt_eventId t = eid) (ticketTypes w)"
  by (auto simp: event_findUnique_def split: option.splits)

lemma mintTickets_world:
  "mintTickets en eid uid oid tt ns w = (r, w') \<Longrightarrow>
   events w' = events w \<and> ticketTypes w' = ticketTypes w \<and> orders w' = orders w \<and>
   tickets w' = tickets w"
proof (induction ns arbitrary: w r w')
  case Nil
  then show ?case by simp
next
  case (Cons i ns)
  then show ?case
    by (fastforce simp: Let_def split: option.splits prod.splits)
qed

lemma mintTickets_total:
  "\<forall>d. generateQRCode en d \<noteq> None \<Longrightarrow> \<exists>ts w'. mintTickets en eid uid oid tt ns w = (Some ts, w')"
proof (induction ns arbitrary: w)
  case Nil
  then show ?case by simp
next
  case (Cons i ns)
  let ?w1 = "w\<lparr>tick := tick w + 1\<rparr>"
  from Cons obtain ts w' where "mintTickets en eid uid oid tt ns ?w1 = (Some ts, w')" by blast
  with Cons.prems show ?case
    by (auto simp: Let_def split: option.splits)
qed

lemma mintTickets_tickets:
  "mintTickets en eid uid oid tt ns w = (Some ts, w') \<Longrightarrow>
   length ts = length ns \<and>
   (\<forall>t\<in>set ts. tk_orderId t = oid \<and> tk_eventId t = eid \<and> tk_userId t = uid \<and>
      tk_ticketTypeId t = Some (tt_id tt) \<and> tk_type t = tt_name tt \<and> tk_price t = tt_price tt)"
proof (induction ns arbitrary: w ts w')
  case Nil
  then show ?case by simp
next
  case (Cons i ns)
  then show ?case
    by (fastforce simp: Let_def split: option.splits prod.splits)
qed

lemma mintTickets_tick:
  "mintTickets en eid uid oid tt ns w = (r, w') \<Longrightarrow> tick w \<le> tick w'"
proof (induction ns arbitrary: w r w')
  case Nil
  then show ?case by simp
next
  case (Cons i ns)
  then show ?case
    by (fastforce simp: Let_def split: option.splits prod.splits)
qed

lemma order_create_fresh:
  assumes "cuid en (tick w) \<notin> set (map ord_id (orders w))"
    and "find (\<lambda>e. ev_id e = eid) (events w) = Some ev"
    and "uid \<in> set (map us_id (users w))"
  shows "order_create en tot uid eid w =
    (Some \<lparr>op_order = \<lparr>ord_id = cuid en (tick w), ord_total = tot, ord_status = PENDING,
                        ord_paymentMethod = None, ord_userId = uid, ord_eventId = eid\<rparr>,
            op_event = Some ev, op_tickets = None\<rparr>,
     w\<lparr>tick := tick w + 1,
       orders := orders w @ [\<lparr>ord_id = cuid en (tick w), ord_total = tot, ord_status = PENDING,
                        ord_paymentMethod = None, ord_userId = uid, ord_eventId = eid\<rparr>]\<rparr>)"
proof -
  from find_mem [OF assms(2)] have "eid \<in> set (map ev_id (events w))" by auto
  with assms show ?thesis by (simp add: order_create_def Let_def)
qed

text \<open>The state of one line item once its order and tickets are stored.\<close>

lemma issueItem_stored:
  assumes ev: "it_eventId it = Some eid" "eid \<noteq> []"
    and fu: "event_findUnique eid w = Some (ev, tts)"
    and rs: "resolveTicketType it tts = Inr tt"
    and av: "quantityOf it \<le> tt_quantity tt - tt_soldCount tt"
    and fresh: "cuid en (tick w) \<notin> set (map ord_id (orders w))"
    and usr: "su_id u \<in> set (map us_id (users w))"
    and mint: "\<forall>d. generateQRCode en d \<noteq> None"
  shows "\<exists>new w3 k. tick w \<le> k \<and>
      issueItem en u it w =
        (if sendTicketEmail en k u new ev
         then Inr \<lparr>is_order = \<lparr>op_order = \<lparr>ord_id = cuid en (tick w),
                       ord_total = orderTotal it tt, ord_status = PENDING,
                       ord_paymentMethod = None, ord_userId = su_id u, ord_eventId = eid\<rparr>,
                     op_event = Some ev, op_tickets = None\<rparr>,
                   is_ticketTypeId = tt_id tt, is_eventId = eid, is_quantity = quantityOf it\<rparr>
         else Inl failed, w3) \<and>
      events w3 = events w \<and> ticketTypes w3 = ticketTypes w \<and>
      orders w3 = orders w @ [\<lparr>ord_id = cuid en (tick w),
                       ord_total = orderTotal it tt, ord_status = PENDING,
                       ord_paymentMethod = None, ord_userId = su_id u, ord_eventId = eid\<rparr>] \<and>
      tickets w3 = tickets w @ new \<and> length new = nat (quantityOf it) \<and>
      (\<forall>t\<in>set new. tk_orderId t = cuid en (tick w) \<and> tk_eventId t = eid \<and>
         tk_userId t = su_id u \<and> tk_ticketTypeId t = Some (tt_id tt) \<and>
         tk_type t = tt_name tt \<and> tk_price t = tt_price tt)"
proof -
  let ?ord = "\<lparr>ord_id = cuid en (tick w), ord_total = orderTotal it tt, ord_status = PENDING,
               ord_paymentMethod = None, ord_userId = su_id u, ord_eventId = eid\<rparr>"
  let ?w1 = "w\<lparr>tick := tick w + 1, orders := orders w @ [?ord]\<rparr>"
  from fu have fe: "find (\<lambda>e. ev_id e = eid) (events w) = Some ev"
    by (simp add: event_findUnique_Some)
  have oc: "order_create en (orderTotal it tt) (su_id u) eid w =
      (Some \<lparr>op_order = ?ord, op_event = Some ev, op_tickets = None\<rparr>, ?w1)"
    by (rule order_create_fresh [OF fresh fe usr])
  from mintTickets_total [OF mint]
  obtain new w2 where mt: "mintTickets en eid (su_id u) (cuid en (tick w)) tt
      [0..<nat (quantityOf it)] ?w1 = (Some new, w2)"
    by blast
  from mintTickets_world [OF mt] have w2: "events w2 = events w" "ticketTypes w2 = ticketTypes w"
      "orders w2 = orders w @ [?ord]" "tickets w2 = tickets w"
    by simp_all
  from mintTickets_tick [OF mt] have tk: "tick w \<le> tick w2" by simp
  from mintTickets_tickets [OF mt] have nw: "length new = nat (quantityOf it)"
    "\<forall>t\<in>set new. tk_orderId t = cuid en (tick w) \<and> tk_eventId t = eid \<and>
         tk_userId t = su_id u \<and> tk_ticketTypeId t = Some (tt_id tt) \<and>
         tk_type t = tt_name tt \<and> tk_price t = tt_price tt"
    by simp_all
  let ?w3 = "(ticket_createMany new w2)\<lparr>tick := tick w2 + 1\<rparr>"
  have "issueItem en u it w =
        (if sendTicketEmail en (tick w2) u new ev
         then Inr \<lparr>is_order = \<lparr>op_order = ?ord, op_event = Some ev, op_tickets = None\<rparr>,
                   is_ticketTypeId = tt_id tt, is_eventId = eid, is_quantity = quantityOf it\<rparr>
         else Inl failed, ?w3)"
    using ev fu rs av oc mt by (simp add: issueItem_def Let_def ticket_createMany_def)
  moreover have "events ?w3 = events w" "ticketTypes ?w3 = ticketTypes w"
    "orders ?w3 = orders w @ [?ord]" "tickets ?w3 = tickets w @ new"
    using w2 by (simp_all add: ticket_createMany_def)
  ultimately show ?thesis using tk nw by blast
qed

lemma order_create_cases:
  "order_create en tot uid eid w = (r, w1) \<Longrightarrow>
   events w1 = events w \<and> ticketTypes w1 = ticketTypes w \<and> tickets w1 = tickets w \<and>
   tick w \<le> tick w1 \<and>
   (case r of
      None \<Rightarrow> orders w1 = orders w
    | Some p \<Rightarrow> cuid en (tick w) \<notin> set (map ord_id (orders w)) \<and>
        op_order p = \<lparr>ord_id = cuid en (tick w), ord_total = tot, ord_status = PENDING,
                      ord_paymentMethod = None, ord_userId = uid, ord_eventId = eid\<rparr> \<and>
        op_event p = find (\<lambda>e. ev_id e = eid) (events w) \<and> op_tickets p = None \<and>
        orders w1 = orders w @ [op_order p])"
  by (auto simp: order_create_def Let_def split: if_splits)

lemma resolveTicketType_Inl:
  "resolveTicketType it tts = Inl e \<Longrightarrow> \<exists>m n. e = Response (ErrorBody m) n"
  by (auto simp: resolveTicketType_def split: if_splits option.splits)

text \<open>Every way one line item can end, before the ledger updates.\<close>

lemma issueItem_cases:
  assumes "issueItem en u it w = (r, w1)"
  shows "events w1 = events w \<and> ticketTypes w1 = ticketTypes w \<and>
    ((orders w1 = orders w \<and> tickets w1 = tickets w \<and>
      (\<exists>m n. r = Inl (Response (ErrorBody m) n))) \<or>
     (\<exists>eid ev tts tt new.
        it_eventId it = Some eid \<and> eid \<noteq> [] \<and> event_findUnique eid w = Some (ev, tts) \<and>
        resolveTicketType it tts = Inr tt \<and>
        quantityOf it \<le> tt_quantity tt - tt_soldCount tt \<and>
        cuid en (tick w) \<notin> set (map ord_id (orders w)) \<and>
        orders w1 = orders w @ [\<lparr>ord_id = cuid en (tick w), ord_total = orderTotal it tt,
            ord_status = PENDING, ord_paymentMethod = None, ord_userId = su_id u,
            ord_eventId = eid\<rparr>] \<and>
        tickets w1 = tickets w @ new \<and>
        (new = [] \<and> r = Inl failed \<or>
         (\<exists>wa wb. mintTickets en eid (su_id u) (cuid en (tick w)) tt
                     [0..<nat (quantityOf it)] wa = (Some new, wb)) \<and>
         (r = Inl failed \<or>
          r = Inr \<lparr>is_order = \<lparr>op_order = \<lparr>ord_id = cuid en (tick w),
                       ord_total = orderTotal it tt, ord_status = PENDING,
                       ord_paymentMethod = None, ord_userId = su_id u, ord_eventId = eid\<rparr>,
                     op_event = Some ev, op_tickets = None\<rparr>,
                   is_ticketTypeId = tt_id tt, is_eventId = eid,
                   is_quantity = quantityOf it\<rparr>))))"
proof (cases "it_eventId it")
  case None
  with assms show ?thesis by (auto simp: issueItem_def Let_def split: if_splits)
next
  case (Some eid)
  show ?thesis
  proof (cases "eid = [] \<or> event_findUnique eid w = None")
    case True
    with assms Some show ?thesis by (auto simp: issueItem_def Let_def split: if_splits)
  next
    case False
    then obtain ev tts where fu: "event_findUnique eid w = Some (ev, tts)" and ne: "eid \<noteq> []"
      by auto
    show ?thesis
    proof (cases "resolveTicketType it tts")
      case (Inl e)
      with assms Some fu ne resolveTicketType_Inl [of it tts e] show ?thesis
        by (auto simp: issueItem_def Let_def split: if_splits)
    next
      case (Inr tt)
      show ?thesis
      proof (cases "tt_quantity tt - tt_soldCount tt < quantityOf it")
        case True
        with assms Some fu ne Inr show ?thesis by (auto simp: issueItem_def Let_def split: if_splits)
      next
        case av: False
        obtain ro wo where oc: "order_create en (orderTotal it tt) (su_id u) eid w = (ro, wo)"
          by (cases "order_create en (orderTotal it tt) (su_id u) eid w")
        note occ = order_create_cases [OF oc]
        show ?thesis
        proof (cases ro)
          case None
          with assms Some fu ne Inr av oc occ show ?thesis
            by (auto simp: issueItem_def failed_def Let_def split: if_splits)
        next
          case (Some p)
          let ?ord = "\<lparr>ord_id = cuid en (tick w), ord_total = orderTotal it tt,
            ord_status = PENDING, ord_paymentMethod = None, ord_userId = su_id u,
            ord_eventId = eid\<rparr>"
          from occ Some have p: "op_order p = ?ord" "op_event p = Some ev" "op_tickets p = None"
            "cuid en (tick w) \<notin> set (map ord_id (orders w))"
            "orders wo = orders w @ [?ord]" "events wo = events w"
            "ticketTypes wo = ticketTypes w" "tickets wo = tickets w"
            using fu by (auto simp: event_findUnique_Some)
          then have p_eq: "p = \<lparr>op_order = ?ord, op_event = Some ev, op_tickets = None\<rparr>"
            by (cases p) simp
          obtain rm wm where mt: "mintTickets en eid (su_id u) (cuid en (tick w)) tt
              [0..<nat (quantityOf it)] wo = (rm, wm)"
            by (cases "mintTickets en eid (su_id u) (cuid en (tick w)) tt
              [0..<nat (quantityOf it)] wo")
          note mw = mintTickets_world [OF mt]
          show ?thesis
          proof (cases rm)
            case None
            have "r = Inl failed" "w1 = wm"
              using assms \<open>it_eventId it = Some eid\<close> fu ne Inr av oc Some p(1) mt None
              by (simp_all add: issueItem_def)
            with mw p \<open>it_eventId it = Some eid\<close> fu ne Inr av show ?thesis by auto
          next
            case (Some new)
            have "(r = Inl failed \<or> r = Inr \<lparr>is_order = p, is_ticketTypeId = tt_id tt,
                      is_eventId = eid, is_quantity = quantityOf it\<rparr>) \<and>
                events w1 = events wm \<and> ticketTypes w1 = ticketTypes wm \<and>
                orders w1 = orders wm \<and> tickets w1 = tickets wm @ new"
              using assms \<open>it_eventId it = Some eid\<close> fu ne Inr av oc \<open>ro = Some p\<close> p(1,2) mt Some
              by (auto simp: issueItem_def Let_def ticket_createMany_def split: if_splits)
            then have rr: "r = Inl failed \<or> r = Inr \<lparr>is_order = \<lparr>op_order = ?ord,
                  op_event = Some ev, op_tickets = None\<rparr>, is_ticketTypeId = tt_id tt,
                  is_eventId = eid, is_quantity = quantityOf it\<rparr>"
              and ww: "events w1 = events w" "ticketTypes w1 = ticketTypes w"
                "orders w1 = orders w @ [?ord]" "tickets w1 = tickets w @ new"
              using mw p p_eq by auto
            have ex: "\<exists>wa wb. mintTickets en eid (su_id u) (cuid en (tick w)) tt
                     [0..<nat (quantityOf it)] wa = (Some new, wb)"
              using mt Some by blast
            have "it_eventId it = Some eid \<and> eid \<noteq> [] \<and>
                event_findUnique eid w = Some (ev, tts) \<and> resolveTicketType it tts = Inr tt \<and>
                quantityOf it \<le> tt_quantity tt - tt_soldCount tt \<and>
                cuid en (tick w) \<notin> set (map ord_id (orders w)) \<and>
                orders w1 = orders w @ [?ord] \<and> tickets w1 = tickets w @ new \<and>
                (new = [] \<and> r = Inl failed \<or>
                 (\<exists>wa wb. mintTickets en eid (su_id u) (cuid en (tick w)) tt
                     [0..<nat (quantityOf it)] wa = (Some new, wb)) \<and>
                 (r = Inl failed \<or> r = Inr \<lparr>is_order = \<lparr>op_order = ?ord,
                  op_event = Some ev, op_tickets = None\<rparr>, is_ticketTypeId = tt_id tt,
                  is_eventId = eid, is_quantity = quantityOf it\<rparr>))"
              using \<open>it_eventId it = Some eid\<close> fu ne Inr av p(4) ww rr ex by simp
            then show ?thesis using ww(1,2) by blast
          qed
        qed
      qed
    qed
  qed
qed

lemma processItem_cases:
  assumes "processItem en u it w = (r, w')"
  shows "\<exists>ri w1. issueItem en u it w = (ri, w1) \<and> orders w' = orders w1 \<and>
    tickets w' = tickets w1 \<and>
    (case ri of
       Inl e \<Rightarrow> r = Inl e \<and> w' = w1
     | Inr iss \<Rightarrow>
         (r = Inl failed \<or> r = Inr (is_order iss)) \<and>
         (ticketTypes w' = ticketTypes w1 \<or>
          ticketTypes w' =
            map (\<lambda>t. if tt_id t = is_ticketTypeId iss
                      then t\<lparr>tt_soldCount := tt_soldCount t + is_quantity iss\<rparr> else t)
              (ticketTypes w1)) \<and>
         (events w' = events w1 \<or>
          events w' =
            map (\<lambda>e. if ev_id e = is_eventId iss
                      then e\<lparr>ev_soldTickets := ev_soldTickets e + is_quantity iss\<rparr> else e)
              (events w1)))"
proof -
  obtain ri w1 where ii: "issueItem en u it w = (ri, w1)"
    by (cases "issueItem en u it w")
  show ?thesis
  proof (cases ri)
    case (Inl e)
    with assms ii show ?thesis by (simp add: processItem_def)
  next
    case (Inr iss)
    with assms ii show ?thesis
      by (auto simp: processItem_def ticketType_update_def event_update_def
          split: option.splits if_splits)
  qed
qed

section \<open>One line item and the whole loop\<close>

text \<open>One line item, from the first check to the last update.\<close>

lemma processItem_effect:
  assumes "processItem en u it w = (r, w')"
  shows "(orders w' = orders w \<and> tickets w' = tickets w \<and> ticketTypes w' = ticketTypes w \<and>
     events w' = events w \<and> (\<exists>m n. r = Inl (Response (ErrorBody m) n))) \<or>
    (\<exists>eid ev tts tt new.
       it_eventId it = Some eid \<and> eid \<noteq> [] \<and> event_findUnique eid w = Some (ev, tts) \<and>
       resolveTicketType it tts = Inr tt \<and>
       quantityOf it \<le> tt_quantity tt - tt_soldCount tt \<and>
       cuid en (tick w) \<notin> set (map ord_id (orders w)) \<and>
       orders w' = orders w @ [\<lparr>ord_id = cuid en (tick w), ord_total = orderTotal it tt,
            ord_status = PENDING, ord_paymentMethod = None, ord_userId = su_id u,
            ord_eventId = eid\<rparr>] \<and>
       tickets w' = tickets w @ new \<and>
       (new = [] \<or>
        (\<exists>wa wb. mintTickets en eid (su_id u) (cuid en (tick w)) tt
                    [0..<nat (quantityOf it)] wa = (Some new, wb))) \<and>
       (r = Inl failed \<or>
        r = Inr \<lparr>op_order = \<lparr>ord_id = cuid en (tick w), ord_total = orderTotal it tt,
                     ord_status = PENDING, ord_paymentMethod = None, ord_userId = su_id u,
                     ord_eventId = eid\<rparr>,
                  op_event = Some ev, op_tickets = None\<rparr>) \<and>
       (ticketTypes w' = ticketTypes w \<or>
        ticketTypes w' =
          map (\<lambda>t. if tt_id t = tt_id tt
                    then t\<lparr>tt_soldCount := tt_soldCount t + quantityOf it\<rparr> else t)
            (ticketTypes w)) \<and>
       (events w' = events w \<or>
        events w' =
          map (\<lambda>e. if ev_id e = eid
                    then e\<lparr>ev_soldTickets := ev_soldTickets e + quantityOf it\<rparr> else e)
            (events w)))"
proof -
  from processItem_cases [OF assms]
  obtain ri w1 where ii: "issueItem en u it w = (ri, w1)"
    and ot: "orders w' = orders w1" "tickets w' = tickets w1"
    and cs: "case ri of
       Inl e \<Rightarrow> r = Inl e \<and> w' = w1
     | Inr iss \<Rightarrow>
         (r = Inl failed \<or> r = Inr (is_order iss)) \<and>
         (ticketTypes w' = ticketTypes w1 \<or>
          ticketTypes w' =
            map (\<lambda>t. if tt_id t = is_ticketTypeId iss
                      then t\<lparr>tt_soldCount := tt_soldCount t + is_quantity iss\<rparr> else t)
              (ticketTypes w1)) \<and>
         (events w' = events w1 \<or>
          events w' =
            map (\<lambda>e. if ev_id e = is_eventId iss
                      then e\<lparr>ev_soldTickets := ev_soldTickets e + is_quantity iss\<rparr> else e)
              (events w1))"
    by blast
  note ic = issueItem_cases [OF ii]
  then have same: "events w1 = events w" "ticketTypes w1 = ticketTypes w" by simp_all
  from ic consider
      (early) m n where "orders w1 = orders w" "tickets w1 = tickets w"
        "ri = Inl (Response (ErrorBody m) n)"
    | (stored) eid ev tts tt new where
        "it_eventId it = Some eid" "eid \<noteq> []" "event_findUnique eid w = Some (ev, tts)"
        "resolveTicketType it tts = Inr tt"
        "quantityOf it \<le> tt_quantity tt - tt_soldCount tt"
        "cuid en (tick w) \<notin> set (map ord_id (orders w))"
        "orders w1 = orders w @ [\<lparr>ord_id = cuid en (tick w), ord_total = orderTotal it tt,
            ord_status = PENDING, ord_paymentMethod = None, ord_userId = su_id u,
            ord_eventId = eid\<rparr>]"
        "tickets w1 = tickets w @ new"
        "new = [] \<and> ri = Inl failed \<or>
         (\<exists>wa wb. mintTickets en eid (su_id u) (cuid en (tick w)) tt
                     [0..<nat (quantityOf it)] wa = (Some new, wb)) \<and>
         (ri = Inl failed \<or>
          ri = Inr \<lparr>is_order = \<lparr>op_order = \<lparr>ord_id = cuid en (tick w),
                       ord_total = orderTotal it tt, ord_status = PENDING,
                       ord_paymentMethod = None, ord_userId = su_id u, ord_eventId = eid\<rparr>,
                     op_event = Some ev, op_tickets = None\<rparr>,
                   is_ticketTypeId = tt_id tt, is_eventId = eid,
                   is_quantity = quantityOf it\<rparr>)"
    by blast
  then show ?thesis
  proof cases
    case early
    with cs have "r = Inl (Response (ErrorBody m) n)" "w' = w1" by simp_all
    with early same show ?thesis by simp
  next
    case stored
    let ?ord = "\<lparr>ord_id = cuid en (tick w), ord_total = orderTotal it tt,
            ord_status = PENDING, ord_paymentMethod = None, ord_userId = su_id u,
            ord_eventId = eid\<rparr>"
    let ?iss = "\<lparr>is_order = \<lparr>op_order = ?ord, op_event = Some ev, op_tickets = None\<rparr>,
                   is_ticketTypeId = tt_id tt, is_eventId = eid,
                   is_quantity = quantityOf it\<rparr>"
    have r: "(r = Inl failed \<or> r = Inr \<lparr>op_order = ?ord, op_event = Some ev, op_tickets = None\<rparr>) \<and>
       (ticketTypes w' = ticketTypes w \<or>
        ticketTypes w' =
          map (\<lambda>t. if tt_id t = tt_id tt
                    then t\<lparr>tt_soldCount := tt_soldCount t + quantityOf it\<rparr> else t)
            (ticketTypes w)) \<and>
       (events w' = events w \<or>
        events w' =
          map (\<lambda>e. if ev_id e = eid
                    then e\<lparr>ev_soldTickets := ev_soldTickets e + quantityOf it\<rparr> else e)
            (events w))"
    proof (cases "ri = Inl failed")
      case True
      with cs same show ?thesis by simp
    next
      case False
      with stored(9) have "ri = Inr ?iss" by blast
      with cs same show ?thesis by (simp cong: if_cong)
    qed
    have n: "new = [] \<or>
        (\<exists>wa wb. mintTickets en eid (su_id u) (cuid en (tick w)) tt
                    [0..<nat (quantityOf it)] wa = (Some new, wb))"
      using stored(9) by blast
    show ?thesis
      using stored(1-8) ot r n by (intro disjI2 exI [of _ eid] exI [of _ ev] exI [of _ tts]
          exI [of _ tt] exI [of _ new]) simp
  qed
qed


lemma map_soldCount_update:
  "map tt_price (map (\<lambda>t. if tt_id t = k then t\<lparr>tt_soldCount := tt_soldCount t + n\<rparr> else t) xs)
     = map tt_price xs"
  "map tt_id (map (\<lambda>t. if tt_id t = k then t\<lparr>tt_soldCount := tt_soldCount t + n\<rparr> else t) xs)
     = map tt_id xs"
  by (induction xs) auto

lemma processItem_columns:
  assumes "processItem en u it w = (r, w')"
  shows "map tt_price (ticketTypes w') = map tt_price (ticketTypes w)"
    and "map tt_id (ticketTypes w') = map tt_id (ticketTypes w)"
  using processItem_effect [OF assms] by (auto simp: map_soldCount_update)




section \<open>The ledger across requests\<close>

lemma distinct_key_eq:
  "distinct (map f xs) \<Longrightarrow> x \<in> set xs \<Longrightarrow> y \<in> set xs \<Longrightarrow> f x = f y \<Longrightarrow> x = y"
  by (auto simp: distinct_map dest: inj_onD)

lemma processItem_ledger:
  assumes pi: "processItem en u it w = (r, w')"
    and ids: "distinct (map tt_id (ticketTypes w))"
    and ok: "ledgerOk w"
  shows "ledgerOk w'"
proof -
  from processItem_effect [OF pi]
  consider "ticketTypes w' = ticketTypes w"
    | eid ev tts tt where "event_findUnique eid w = Some (ev, tts)"
        "resolveTicketType it tts = Inr tt"
        "quantityOf it \<le> tt_quantity tt - tt_soldCount tt"
        "ticketTypes w' =
          map (\<lambda>t. if tt_id t = tt_id tt
                    then t\<lparr>tt_soldCount := tt_soldCount t + quantityOf it\<rparr> else t)
            (ticketTypes w)"
    by blast
  then show ?thesis
  proof cases
    case 1
    with ok show ?thesis by (simp add: ledgerOk_def)
  next
    case 2
    from event_findUnique_Some [OF 2(1)] resolveTicketType_mem [OF 2(2)]
    have tt_in: "tt \<in> set (ticketTypes w)" by simp
    have "tt_soldCount t + quantityOf it \<le> tt_quantity t"
      if "t \<in> set (ticketTypes w)" "tt_id t = tt_id tt" for t
    proof -
      from distinct_key_eq [OF ids that(1) tt_in that(2)] have "t = tt" .
      with 2(3) show ?thesis by simp
    qed
    with ok 2(4) show ?thesis
      by (auto simp: ledgerOk_def list_all_iff)
  qed
qed

lemma purchaseLoop_ledger:
  "purchaseLoop en u its created w = (r, w') \<Longrightarrow> distinct (map tt_id (ticketTypes w)) \<Longrightarrow>
   ledgerOk w \<Longrightarrow> map tt_id (ticketTypes w') = map tt_id (ticketTypes w) \<and> ledgerOk w'"
proof (induction its arbitrary: created w)
  case Nil
  then show ?case by simp
next
  case (Cons it its)
  obtain x w1 where pi: "processItem en u it w = (x, w1)"
    by (cases "processItem en u it w")
  note ids1 = processItem_columns(2) [OF pi]
  note ok1 = processItem_ledger [OF pi Cons.prems(2,3)]
  show ?case
  proof (cases x)
    case (Inl e)
    with Cons.prems(1) pi have "w' = w1" by simp
    with ids1 ok1 show ?thesis by simp
  next
    case (Inr p)
    with Cons.prems(1) pi have "purchaseLoop en u its (created @ [p]) w1 = (r, w')" by simp
    from Cons.IH [OF this] ids1 ok1 Cons.prems(2) show ?thesis by simp
  qed
qed

lemma POST_ledger:
  assumes "distinct (map tt_id (ticketTypes w))" "ledgerOk w"
  shows "map tt_id (ticketTypes (snd (POST en session b w))) = map tt_id (ticketTypes w) \<and>
    ledgerOk (snd (POST en session b w))"
proof (cases "\<exists>u bd its. session = Some u \<and> su_id u \<noteq> [] \<and> b = Some bd \<and> items bd = Some its
    \<and> its \<noteq> []")
  case True
  then obtain u bd its where s: "session = Some u" "su_id u \<noteq> []" "b = Some bd"
    "items bd = Some its" "its \<noteq> []"
    by blast
  then have "POST en session b w = purchaseLoop en u its [] w"
    by (cases its) (simp_all add: POST_def)
  moreover obtain r w' where l: "purchaseLoop en u its [] w = (r, w')"
    by (cases "purchaseLoop en u its [] w")
  ultimately have "snd (POST en session b w) = w'" by simp
  with purchaseLoop_ledger [OF l assms] show ?thesis by simp
next
  case False
  then have "snd (POST en session b w) = w"
    by (auto simp: POST_def split: option.splits list.splits)
  with assms show ?thesis by simp
qed

text \<open>A request alone goes through its three steps to the handler's result.\<close>

lemma one_request_alone:
  assumes "su_id u \<noteq> []" "items bd = Some [it]"
  shows "runSchedule en [0, 0, 0] ([Pending u it], w) =
    ([Finished (fst (POST en (Some u) (Some bd) w))], snd (POST en (Some u) (Some bd) w))"
proof -
  obtain ri w1 where ii: "issueItem en u it w = (ri, w1)"
    by (cases "issueItem en u it w")
  show ?thesis
  proof (cases ri)
    case (Inl e)
    with ii assms show ?thesis
      by (simp add: POST_def processItem_def stepTask_def)
  next
    case (Inr iss)
    with ii assms show ?thesis
      by (auto simp: POST_def processItem_def stepTask_def split: option.splits)
  qed
qed

text \<open>A line item of quantity at least 0 lowers no counter.\<close>

lemma processItem_counters_grow:
  assumes pi: "processItem en u it w = (r, w')" and q0: "0 \<le> quantityOf it"
  shows "list_all2 (\<lambda>a b. tt_soldCount a \<le> tt_soldCount b) (ticketTypes w) (ticketTypes w')"
    and "list_all2 (\<lambda>a b. ev_soldTickets a \<le> ev_soldTickets b) (events w) (events w')"
proof -
  have tts: "list_all2 (\<lambda>a b. tt_soldCount a \<le> tt_soldCount b) xs
      (map (\<lambda>t. if tt_id t = k then t\<lparr>tt_soldCount := tt_soldCount t + quantityOf it\<rparr> else t) xs)"
    for xs :: "TicketType list" and k
    using q0 by (induction xs) auto
  have evs: "list_all2 (\<lambda>a b. ev_soldTickets a \<le> ev_soldTickets b) xs
      (map (\<lambda>e. if ev_id e = k then e\<lparr>ev_soldTickets := ev_soldTickets e + quantityOf it\<rparr> else e) xs)"
    for xs :: "Event list" and k
    using q0 by (induction xs) auto
  have same: "list_all2 (\<lambda>a b. tt_soldCount a \<le> tt_soldCount b) xs xs"
    "list_all2 (\<lambda>a b. ev_soldTickets a \<le> ev_soldTickets b) ys ys"
    for xs :: "TicketType list" and ys :: "Event list"
    by (simp_all add: list_all2_same)
  from processItem_effect [OF pi]
  have "(ticketTypes w' = ticketTypes w \<or>
      (\<exists>k. ticketTypes w' =
        map (\<lambda>t. if tt_id t = k then t\<lparr>tt_soldCount := tt_soldCount t + quantityOf it\<rparr> else t)
          (ticketTypes w))) \<and>
    (events w' = events w \<or>
      (\<exists>k. events w' =
        map (\<lambda>e. if ev_id e = k then e\<lparr>ev_soldTickets := ev_soldTickets e + quantityOf it\<rparr> else e)
          (events w)))"
    by auto
  with tts evs same
  show "list_all2 (\<lambda>a b. tt_soldCount a \<le> tt_soldCount b) (ticketTypes w) (ticketTypes w')"
    and "list_all2 (\<lambda>a b. ev_soldTickets a \<le> ev_soldTickets b) (events w) (events w')"
    by auto
qed

section \<open>Credentials and their payloads\<close>













section \<open>Issuance\<close>




text \<open>
  C2. A line item that asks for more than the availability \<open>quantity - soldCount\<close> of
  the ticket type it resolves to is answered with status 400, ``Not enough tickets
  available'', and leaves the tables as they were: no order, no ticket, no change of
  \<open>soldCount\<close> or \<open>soldTickets\<close>. The request ends there.
\<close>

theorem insufficient_inventory_rejected:
  assumes ev: "it_eventId it = Some eid" "eid \<noteq> []"
    and fu: "event_findUnique eid w = Some (ev, tts)"
    and rs: "resolveTicketType it tts = Inr tt"
    and av: "tt_quantity tt - tt_soldCount tt < quantityOf it"
  shows "processItem en u it w =
      (Inl (Response (ErrorBody ''Not enough tickets available'') 400), w) \<and>
    purchaseLoop en u (it # rest) createdOrders w =
      (Response (ErrorBody ''Not enough tickets available'') 400, w)"
proof -
  have "issueItem en u it w =
      (Inl (Response (ErrorBody ''Not enough tickets available'') 400), w)"
    using assms by (simp add: issueItem_def)
  then have "processItem en u it w =
      (Inl (Response (ErrorBody ''Not enough tickets available'') 400), w)"
    by (simp add: processItem_def)
  then show ?thesis by simp
qed

text \<open>
  The scenario of the specification: the purchase of both VIP tickets succeeds and leaves
  \<open>soldCount = 2\<close>; one more ticket is then refused and \<open>soldCount\<close> stays at 2.
\<close>

theorem insufficient_inventory_rejected_witness:
  "POST services (Some buyer) (Some (cart [lineItem 2])) box_office =
     (Response (OrdersBody [\<lparr>op_order = \<lparr>ord_id = ''o'', ord_total = 100,
          ord_status = PENDING, ord_paymentMethod = None, ord_userId = ''U1'',
          ord_eventId = ''E1''\<rparr>, op_event = Some gala, op_tickets = None\<rparr>]) 201, sold_out) \<and>
   map tt_soldCount (ticketTypes sold_out) = [2] \<and>
   processItem services buyer (lineItem 1) sold_out =
      (Inl (Response (ErrorBody ''Not enough tickets available'') 400), sold_out) \<and>
   purchaseLoop services buyer [lineItem 1] [] sold_out =
      (Response (ErrorBody ''Not enough tickets available'') 400, sold_out)"
proof -
  have h: "it_eventId (lineItem 1) = Some ''E1''" "''E1'' \<noteq> []"
    "event_findUnique ''E1'' sold_out =
       Some (gala\<lparr>ev_soldTickets := 2\<rparr>, [vip\<lparr>tt_soldCount := 2\<rparr>])"
    "resolveTicketType (lineItem 1) [vip\<lparr>tt_soldCount := 2\<rparr>] = Inr (vip\<lparr>tt_soldCount := 2\<rparr>)"
    "tt_quantity (vip\<lparr>tt_soldCount := 2\<rparr>) - tt_soldCount (vip\<lparr>tt_soldCount := 2\<rparr>)
       < quantityOf (lineItem 1)"
    by (simp_all add: handler_defs example_defs)
  have first: "POST services (Some buyer) (Some (cart [lineItem 2])) box_office =
     (Response (OrdersBody [\<lparr>op_order = \<lparr>ord_id = ''o'', ord_total = 100,
          ord_status = PENDING, ord_paymentMethod = None, ord_userId = ''U1'',
          ord_eventId = ''E1''\<rparr>, op_event = Some gala, op_tickets = None\<rparr>]) 201, sold_out)"
    by (simp add: handler_defs example_defs upt_rec)
  have "map tt_soldCount (ticketTypes sold_out) = [2]"
    by (simp add: example_defs)
  with first insufficient_inventory_rejected [OF h, of services buyer "[]" "[]"]
  show ?thesis by simp
qed

section \<open>Requests served at the same time\<close>

text \<open>
  C3 (as amended). When purchase requests are served one after the other, in any number
  and with any carts, no ticket type's \<open>soldCount\<close> comes to exceed its \<open>quantity\<close>,
  provided none did before and the ticket type ids are unique. The availability check and
  the increment are separate statements and are not serialized against other requests.
\<close>

theorem sequential_purchases_never_oversell:
  assumes "distinct (map tt_id (ticketTypes w))" and "ledgerOk w"
  shows "ledgerOk (runSequential en reqs w)"
  using assms
proof (induction reqs arbitrary: w)
  case Nil
  then show ?case by simp
next
  case (Cons req reqs)
  obtain session b where req: "req = (session, b)" by (cases req)
  from POST_ledger [OF Cons.prems, of en session b]
  have "distinct (map tt_id (ticketTypes (snd (POST en session b w))))"
    "ledgerOk (snd (POST en session b w))"
    using Cons.prems(1) by simp_all
  from Cons.IH [OF this] req show ?case by simp
qed

theorem sequential_purchases_never_oversell_witness:
  "ledgerOk (runSequential services
     [(Some buyer, Some (cart [lineItem 1])), (Some buyer, Some (cart [lineItem 1]))] last_seat) \<and>
   map tt_soldCount (ticketTypes (runSequential services
     [(Some buyer, Some (cart [lineItem 1])), (Some buyer, Some (cart [lineItem 1]))] last_seat))
     = [1]"
proof -
  have h: "distinct (map tt_id (ticketTypes last_seat))" "ledgerOk last_seat"
    by (simp_all add: ledgerOk_def example_defs)
  have c: "map tt_soldCount (ticketTypes (runSequential services
     [(Some buyer, Some (cart [lineItem 1])), (Some buyer, Some (cart [lineItem 1]))] last_seat))
     = [1]"
    by (simp add: handler_defs example_defs upt_rec eval_nat_numeral)
  show ?thesis
    by (rule conjI [OF sequential_purchases_never_oversell [OF h] c])
qed

text \<open>
  C3 as stated fails. One VIP ticket is left, and two requests ask for one ticket each.
  Both pass the availability check before either increments; both increments then go
  through, and \<open>soldCount\<close> is 2 against a \<open>quantity\<close> of 1.
\<close>

theorem interleaved_purchases_oversell:
  "map tt_quantity (ticketTypes last_seat) = [1] \<and>
   map tt_soldCount (ticketTypes last_seat) = [0] \<and>
   map tt_soldCount (ticketTypes (snd (runSchedule services [0, 1, 0, 1, 0, 1]
     ([Pending buyer (lineItem 1), Pending buyer (lineItem 1)], last_seat)))) = [2] \<and>
   map tt_quantity (ticketTypes (snd (runSchedule services [0, 1, 0, 1, 0, 1]
     ([Pending buyer (lineItem 1), Pending buyer (lineItem 1)], last_seat)))) = [1] \<and>
   \<not> ledgerOk (snd (runSchedule services [0, 1, 0, 1, 0, 1]
     ([Pending buyer (lineItem 1), Pending buyer (lineItem 1)], last_seat)))"
  by (simp add: handler_defs example_defs stepTask_def ledgerOk_def upt_rec eval_nat_numeral)

section \<open>The counters never go down\<close>

text \<open>
  C4. The counters are meant never to go down at issuance, and a line item of quantity at
  least 0 lowers none (\<open>processItem_counters_grow\<close>). But the handler passes the
  cart's quantity to \<open>increment\<close> unchecked: the availability test
  \<open>availableTickets < quantity\<close> lets every negative quantity through. With
  \<open>quantity: -1\<close> against the sold-out ticket type the request is answered 201, an
  order of total \<open>-50\<close> is stored, and \<open>soldCount\<close> and \<open>soldTickets\<close> fall from 2
  to 1.
\<close>

theorem negative_quantity_lowers_ledger:
  "fst (POST services (Some buyer) (Some (cart [lineItem (- 1)])) sold_out) =
     Response (OrdersBody [\<lparr>op_order = \<lparr>ord_id = ''o++++'', ord_total = - 50,
          ord_status = PENDING, ord_paymentMethod = None, ord_userId = ''U1'',
          ord_eventId = ''E1''\<rparr>, op_event = Some (gala\<lparr>ev_soldTickets := 2\<rparr>),
          op_tickets = None\<rparr>]) 201 \<and>
   map tt_soldCount (ticketTypes sold_out) = [2] \<and>
   map tt_soldCount (ticketTypes (snd (POST services (Some buyer)
      (Some (cart [lineItem (- 1)])) sold_out))) = [1] \<and>
   map ev_soldTickets (events sold_out) = [2] \<and>
   map ev_soldTickets (events (snd (POST services (Some buyer)
      (Some (cart [lineItem (- 1)])) sold_out))) = [1]"
  by (simp add: handler_defs example_defs eval_nat_numeral)

section \<open>Delivery\<close>

text \<open>
  C5 (as amended). When the delivery of a line item rejects after its order and tickets
  are stored (the buyer has a row in \<open>users\<close>, the order id drawn is not taken, the
  encoder rejects no payload), the order and its tickets stay stored; the ledger is not incremented for
  the item; the request ends with the \<open>catch\<close> block's status 500, ``Failed to create
  order'', whatever orders the earlier items created.
\<close>

theorem delivery_failure_keeps_rows:
  assumes ev: "it_eventId it = Some eid" "eid \<noteq> []"
    and fu: "event_findUnique eid w = Some (ev, tts)"
    and rs: "resolveTicketType it tts = Inr tt"
    and av: "quantityOf it \<le> tt_quantity tt - tt_soldCount tt"
    and usr: "su_id u \<in> set (map us_id (users w))"
    and fresh: "cuid en (tick w) \<notin> set (map ord_id (orders w))"
    and mint: "\<forall>d. generateQRCode en d \<noteq> None"
    and mail: "\<forall>n ts. tick w \<le> n \<longrightarrow> \<not> sendTicketEmail en n u ts ev"
  shows "\<exists>w' ord new.
      purchaseLoop en u (it # rest) createdOrders w =
        (Response (ErrorBody ''Failed to create order'') 500, w') \<and>
      orders w' = orders w @ [ord] \<and> ord_userId ord = su_id u \<and> ord_eventId ord = eid \<and>
      tickets w' = tickets w @ new \<and> length new = nat (quantityOf it) \<and>
      (\<forall>t\<in>set new. tk_orderId t = ord_id ord \<and> tk_ticketTypeId t = Some (tt_id tt)) \<and>
      ticketTypes w' = ticketTypes w \<and> events w' = events w"
proof -
  let ?ord = "\<lparr>ord_id = cuid en (tick w), ord_total = orderTotal it tt, ord_status = PENDING,
               ord_paymentMethod = None, ord_userId = su_id u, ord_eventId = eid\<rparr>"
  from issueItem_stored [OF ev fu rs av fresh usr mint]
  obtain new w3 k where k: "tick w \<le> k"
    and ii: "issueItem en u it w =
        (if sendTicketEmail en k u new ev
         then Inr \<lparr>is_order = \<lparr>op_order = ?ord, op_event = Some ev, op_tickets = None\<rparr>,
                   is_ticketTypeId = tt_id tt, is_eventId = eid, is_quantity = quantityOf it\<rparr>
         else Inl failed, w3)"
    and w3: "events w3 = events w" "ticketTypes w3 = ticketTypes w"
      "orders w3 = orders w @ [?ord]" "tickets w3 = tickets w @ new"
    and new: "length new = nat (quantityOf it)"
      "\<forall>t\<in>set new. tk_orderId t = cuid en (tick w) \<and> tk_eventId t = eid \<and>
         tk_userId t = su_id u \<and> tk_ticketTypeId t = Some (tt_id tt) \<and>
         tk_type t = tt_name tt \<and> tk_price t = tt_price tt"
    by blast
  from mail k have "\<not> sendTicketEmail en k u new ev" by simp
  with ii have "issueItem en u it w = (Inl failed, w3)" by simp
  then have "purchaseLoop en u (it # rest) createdOrders w =
      (Response (ErrorBody ''Failed to create order'') 500, w3)"
    by (simp add: processItem_def failed_def)
  with w3 new show ?thesis
    by (intro exI [of _ w3] exI [of _ ?ord] exI [of _ new]) simp
qed

theorem delivery_failure_keeps_rows_witness:
  "\<exists>w' ord new.
      purchaseLoop (mail_down 0) buyer [lineItem 2] [] box_office =
        (Response (ErrorBody ''Failed to create order'') 500, w') \<and>
      orders w' = [ord] \<and> tickets w' = new \<and> length new = 2 \<and>
      (\<forall>t\<in>set new. tk_orderId t = ord_id ord) \<and>
      ticketTypes w' = [vip] \<and> events w' = [gala]"
proof -
  have h: "it_eventId (lineItem 2) = Some ''E1''" "''E1'' \<noteq> []"
    "event_findUnique ''E1'' box_office = Some (gala, [vip])"
    "resolveTicketType (lineItem 2) [vip] = Inr vip"
    "quantityOf (lineItem 2) \<le> tt_quantity vip - tt_soldCount vip"
    "su_id buyer \<in> set (map us_id (users box_office))"
    "cuid (mail_down 0) (tick box_office) \<notin> set (map ord_id (orders box_office))"
    "\<forall>d. generateQRCode (mail_down 0) d \<noteq> None"
    "\<forall>n ts. tick box_office \<le> n \<longrightarrow> \<not> sendTicketEmail (mail_down 0) n buyer ts gala"
    by (simp_all add: handler_defs example_defs)
  from delivery_failure_keeps_rows [OF h, of "[]" "[]"] show ?thesis
    by (simp add: box_office_def quantityOf_def lineItem_def) blast
qed

text \<open>
  C5 as stated fails. A cart of two items, the delivery of the second rejecting: the
  first item is fully issued, the second has its order and ticket stored, \<open>soldCount\<close>
  counts one ticket for two stored, and the response is the generic failure, which names
  no line item.
\<close>

theorem delivery_failure_is_generic_500:
  "POST (mail_down 4) (Some buyer) (Some (cart [lineItem 1, lineItem 1])) box_office =
     (Response (ErrorBody ''Failed to create order'') 500,
      \<lparr>users = [ama], events = [gala\<lparr>ev_soldTickets := 1\<rparr>],
       ticketTypes = [vip\<lparr>tt_soldCount := 1\<rparr>],
       orders = [\<lparr>ord_id = ''o'', ord_total = 50, ord_status = PENDING,
                  ord_paymentMethod = None, ord_userId = ''U1'', ord_eventId = ''E1''\<rparr>,
                 \<lparr>ord_id = ''o+++'', ord_total = 50, ord_status = PENDING,
                  ord_paymentMethod = None, ord_userId = ''U1'', ord_eventId = ''E1''\<rparr>],
       tickets = [\<lparr>tk_qrCode = ''o/I'', tk_type = ''VIP'', tk_price = 50, tk_eventId = ''E1'',
                   tk_userId = ''U1'', tk_orderId = ''o'', tk_ticketTypeId = Some ''T1''\<rparr>,
                  \<lparr>tk_qrCode = ''o+++/I'', tk_type = ''VIP'', tk_price = 50,
                   tk_eventId = ''E1'', tk_userId = ''U1'', tk_orderId = ''o+++'',
                   tk_ticketTypeId = Some ''T1''\<rparr>],
       tick = 6\<rparr>)"
  by (simp add: handler_defs example_defs upt_rec eval_nat_numeral)

section \<open>The order total\<close>

text \<open>
  C6 (as amended). Whenever a line item stores an order, the order's total is the unit
  price times the quantity, where the unit price is the cart's \<open>price\<close> if the cart
  supplies one that is not zero, and the price of the resolved ticket type otherwise: the
  choice is by truthiness, so a supplied price of 0 falls back to the ticket type's price.
\<close>

theorem order_total_truthy_price:
  assumes "processItem en u it w = (r, w')"
  shows "orders w' = orders w \<or>
    (\<exists>eid ev tts tt ord.
       it_eventId it = Some eid \<and> event_findUnique eid w = Some (ev, tts) \<and>
       resolveTicketType it tts = Inr tt \<and> orders w' = orders w @ [ord] \<and>
       ord_total ord =
         (case it_price it of
            None \<Rightarrow> tt_price tt
          | Some p \<Rightarrow> if p = 0 then tt_price tt else p) * of_int (quantityOf it))"
proof -
  from processItem_cases [OF assms]
  obtain ri w1 where ii: "issueItem en u it w = (ri, w1)" and o: "orders w' = orders w1"
    by blast
  have tot: "orderTotal it tt =
      (case it_price it of None \<Rightarrow> tt_price tt | Some p \<Rightarrow> if p = 0 then tt_price tt else p)
        * of_int (quantityOf it)" for tt
    by (simp add: orderTotal_def split: option.splits)
  from issueItem_cases [OF ii]
  consider "orders w1 = orders w"
    | eid ev tts tt where "it_eventId it = Some eid" "event_findUnique eid w = Some (ev, tts)"
        "resolveTicketType it tts = Inr tt"
        "orders w1 = orders w @ [\<lparr>ord_id = cuid en (tick w), ord_total = orderTotal it tt,
            ord_status = PENDING, ord_paymentMethod = None, ord_userId = su_id u,
            ord_eventId = eid\<rparr>]"
    by blast
  then show ?thesis
  proof cases
    case 1
    with o show ?thesis by simp
  next
    case 2
    let ?ord = "\<lparr>ord_id = cuid en (tick w), ord_total = orderTotal it tt,
            ord_status = PENDING, ord_paymentMethod = None, ord_userId = su_id u,
            ord_eventId = eid\<rparr>"
    have "ord_total ?ord =
      (case it_price it of None \<Rightarrow> tt_price tt | Some p \<Rightarrow> if p = 0 then tt_price tt else p)
        * of_int (quantityOf it)"
      using tot [of tt] by simp
    with 2 o show ?thesis by force
  qed
qed

theorem order_total_truthy_price_witness:
  "map ord_total (orders (snd (processItem services buyer ((lineItem 2)\<lparr>it_price := Some 30\<rparr>)
      box_office))) = [60] \<and>
   map ord_total (orders (snd (processItem services buyer ((lineItem 2)\<lparr>it_price := Some 0\<rparr>)
      box_office))) = [100] \<and>
   map ord_total (orders (snd (processItem services buyer (lineItem 2) box_office))) = [100]"
proof -
  have a: "processItem services buyer ((lineItem 2)\<lparr>it_price := Some 30\<rparr>) box_office =
      (fst (processItem services buyer ((lineItem 2)\<lparr>it_price := Some 30\<rparr>) box_office),
       snd (processItem services buyer ((lineItem 2)\<lparr>it_price := Some 30\<rparr>) box_office))"
    by simp
  have e: "event_findUnique ''E1'' box_office = Some (gala, [vip])"
    "resolveTicketType ((lineItem 2)\<lparr>it_price := Some 30\<rparr>) [vip] = Inr vip"
    "it_eventId ((lineItem 2)\<lparr>it_price := Some 30\<rparr>) = Some ''E1''"
    by (simp_all add: handler_defs example_defs)
  have n: "orders (snd (processItem services buyer ((lineItem 2)\<lparr>it_price := Some 30\<rparr>)
      box_office)) \<noteq> orders box_office"
    by (simp add: handler_defs example_defs upt_rec)
  from order_total_truthy_price [OF a] n e
  have "map ord_total (orders (snd (processItem services buyer
      ((lineItem 2)\<lparr>it_price := Some 30\<rparr>) box_office))) = [60]"
    by (auto simp: example_defs quantityOf_def)
  then show ?thesis
    by (simp add: handler_defs example_defs upt_rec)
qed

text \<open>
  C6 as stated fails: with a supplied price of 0 for two VIP tickets at 50, the
  specification's line total is 0 and the stored order's total is 100.
\<close>

theorem zero_price_override_falls_back:
  "lineTotalSpec ((lineItem 2)\<lparr>it_price := Some 0\<rparr>) vip = 0 \<and>
   map ord_total (orders (snd (POST services (Some buyer)
      (Some (cart [(lineItem 2)\<lparr>it_price := Some 0\<rparr>])) box_office))) = [100]"
  by (simp add: handler_defs example_defs upt_rec lineTotalSpec_def)

section \<open>Resolving the ticket type\<close>




section \<open>The response\<close>




section \<open>Unique credentials\<close>



section \<open>Fields of the body that are not read\<close>



end
